theory Spec2Isabelle
  imports Main "HOL-Library.Word" "HOL-Library.AList"
begin

section \<open>The Application entity\<close>

text \<open>
  Go strings and byte slices are both sequences of bytes, so both are \<open>string\<close> here and
  the conversion \<^verbatim>\<open>[]byte(s)\<close> is the identity. A nil slice and an empty slice are both
  \<open>[]\<close>.
\<close>

type_synonym bytes = string

text \<open>\<^verbatim>\<open>type applicationStatus string\<close> with its seven constants. A reply decoded from the
  cloud may carry any string, so the type stays \<open>string\<close>.\<close>

type_synonym applicationStatus = string

definition PreApplying :: applicationStatus where "PreApplying = ''PreApplying''"
definition InApplying :: applicationStatus where "InApplying = ''InApplying''"
definition InProcessing :: applicationStatus where "InProcessing = ''InProcessing''"
definition Approved :: applicationStatus where "Approved = ''Approved''"
definition Rejected :: applicationStatus where "Rejected = ''Rejected''"
definition Failed :: applicationStatus where "Failed = ''Failed''"
definition Completed :: applicationStatus where "Completed = ''Completed''"


type_synonym applicationVerb = string

definition Get :: applicationVerb where "Get = ''get''"
definition List :: applicationVerb where "List = ''list''"
definition Watch :: applicationVerb where "Watch = ''watch''"
definition Create :: applicationVerb where "Create = ''create''"
definition Delete :: applicationVerb where "Delete = ''delete''"
definition Update :: applicationVerb where "Update = ''update''"
definition UpdateStatus :: applicationVerb where "UpdateStatus = ''updatestatus''"
definition Patch :: applicationVerb where "Patch = ''patch''"

lemmas verb_defs =
  Get_def List_def Watch_def Create_def Delete_def Update_def UpdateStatus_def Patch_def

text \<open>\<^verbatim>\<open>apierrors.StatusError\<close>: the structured API error, reduced to the message, reason
  and code of its \<^verbatim>\<open>ErrStatus\<close>. The zero value is \<open>StatusError [] [] 0\<close>.\<close>

datatype StatusError = StatusError (ErrMessage: string) (ErrReason: string) (ErrCode: int)

text \<open>A Go \<^verbatim>\<open>error\<close> value: one that implements \<^verbatim>\<open>apierrors.APIStatus\<close>, or any other
  error, kept as its text.\<close>

datatype error = APIStatus StatusError | Plain string

fun Error_text :: "error \<Rightarrow> string" where
  "Error_text (APIStatus s) = ErrMessage s"
| "Error_text (Plain t) = t"

text \<open>
  The struct \<^verbatim>\<open>Application\<close>. The pair \<^verbatim>\<open>ctx\<close>/\<^verbatim>\<open>cancel\<close> is always set together
  (\<^verbatim>\<open>newApplication\<close>, \<^verbatim>\<open>Reset\<close>) or left nil together (an Application decoded from a
  message), so it is one field: \<open>None\<close> when both are nil, \<open>Some d\<close> for a cancellable
  context whose \<^verbatim>\<open>Done()\<close> channel is closed iff \<open>d\<close>. \<^verbatim>\<open>count\<close> is a \<^verbatim>\<open>uint64\<close>.
  \<^verbatim>\<open>timestamp\<close> is a \<^verbatim>\<open>time.Time\<close>, counted in nanoseconds from the zero time, so that
  \<^verbatim>\<open>IsZero()\<close> is \<open>t = 0\<close>. The mutex \<^verbatim>\<open>countLock\<close> has no sequential content.
\<close>

record Application =
  ID :: string
  Key :: string
  Verb :: applicationVerb
  Nodename :: string
  Status :: applicationStatus
  Reason :: string
  Option :: bytes
  ReqBody :: bytes
  RespBody :: bytes
  Subresource :: string
  Error :: StatusError
  Token :: string
  ctx :: "bool option"
  count :: "64 word"
  timestamp :: int

text \<open>\<^verbatim>\<open>context.WithCancel(parent)\<close>: a fresh context, already done iff the parent is.\<close>

definition WithCancel :: "bool \<Rightarrow> bool option" where
  "WithCancel parent_done = Some parent_done"

text \<open>
  \<^verbatim>\<open>Identifier\<close> returns the fingerprint and memoizes it in \<^verbatim>\<open>ID\<close>. The parameter \<open>H\<close>
  is \<^verbatim>\<open>fmt.Sprintf("%x", sha256.Sum256(b))\<close>.
\<close>

definition Identifier :: "(bytes \<Rightarrow> string) \<Rightarrow> Application \<Rightarrow> string \<times> Application" where
  "Identifier H a =
     (if ID a \<noteq> [] then (ID a, a)
      else
        let b = Nodename a;
            b = b @ Key a;
            b = b @ Verb a;
            b = b @ Option a;
            b = b @ ReqBody a;
            b = b @ Subresource a;
            b = b @ Token a;
            a = a\<lparr>ID := H b\<rparr>
        in (ID a, a))"


text \<open>\<^verbatim>\<open>Call\<close> cancels the context when there is one.\<close>

definition Call :: "Application \<Rightarrow> Application" where
  "Call a = (if ctx a \<noteq> None then a\<lparr>ctx := Some True\<rparr> else a)"


text \<open>\<^verbatim>\<open>Wait\<close> blocks on \<^verbatim>\<open>ctx.Done()\<close> when there is a context; \<open>Wait_returns\<close> says
  that it does not block.\<close>

definition Wait_returns :: "Application \<Rightarrow> bool" where
  "Wait_returns a = (case ctx a of None \<Rightarrow> True | Some d \<Rightarrow> d)"

text \<open>
  \<^verbatim>\<open>Reset\<close> cancels the old context (which the Application then no longer refers to) and
  takes a fresh one under \<^verbatim>\<open>beehiveContext.GetContext()\<close>; \<open>root_done\<close> says whether that
  process-wide context is already cancelled.
\<close>

definition Reset :: "bool \<Rightarrow> Application \<Rightarrow> Application" where
  "Reset root_done a = a\<lparr>ctx := WithCancel root_done, Reason := [], RespBody := []\<rparr>"

definition add :: "Application \<Rightarrow> Application" where
  "add a = a\<lparr>count := count a + 1\<rparr>"

definition getCount :: "Application \<Rightarrow> 64 word" where
  "getCount a = count a"

text \<open>\<^verbatim>\<open>Close\<close>; \<open>now\<close> is the reading of \<^verbatim>\<open>time.Now()\<close>.\<close>

definition Close :: "int \<Rightarrow> Application \<Rightarrow> Application" where
  "Close now a =
     (if count a = 0 then a
      else
        let a = a\<lparr>timestamp := now\<rparr>;
            a = a\<lparr>count := count a - 1\<rparr>
        in if count a = 0 then a\<lparr>Status := Completed\<rparr> else a)"

definition LastCloseTime :: "Application \<Rightarrow> int" where
  "LastCloseTime a = (if count a = 0 \<and> timestamp a \<noteq> 0 then timestamp a else 0)"

section \<open>Requests, messages and opaque values\<close>

text \<open>
  What the Agent takes from outside: the request context and the transport's messages. An \<open>object\<close> is a Go value that the code only hands
  on; an \<open>iface\<close> is an \<^verbatim>\<open>interface{}\<close> argument, told apart the way \<^verbatim>\<open>toBytes\<close>
  and \<^verbatim>\<open>newApplication\<close> tell it apart.
\<close>

datatype object = Object string

datatype iface = INil | IBytes bytes | InternalListOptions object | IValue object

record RequestInfo =
  IsResourceRequest :: bool
  ri_Subresource :: string

text \<open>The value stored under \<^verbatim>\<open>commontypes.AuthorizationKey\<close>: absent, a string, or a
  value of another type (with the name \<^verbatim>\<open>%T\<close> prints).\<close>

datatype ctx_value = NoValue | StringValue string | OtherValue string

record Context =
  RequestInfo :: "RequestInfo option"
  AuthorizationValue :: ctx_value
  Done :: bool

datatype Message = Message (GetID: string) (Content: object)

section \<open>What the Center takes from outside\<close>

record GVR =
  Group :: string
  Version :: string
  Resource :: string

text \<open>\<^verbatim>\<open>metav1.ListOptions\<close>: the two selectors the code reads, and the rest.\<close>

record ListOptions =
  LabelSelector :: string
  FieldSelector :: string
  others :: object

record PatchInfo =
  Name :: string
  PatchType :: string
  Data :: bytes
  Options :: object
  Subresources :: "string list"

text \<open>Selectors are kept as the terms that build them: a parsed selector string, and the
  combinators \<^verbatim>\<open>fields.AndSelectors\<close> and \<^verbatim>\<open>fields.OneTermEqualSelector\<close>.\<close>

datatype label_selector = ParsedLabel string

datatype field_selector =
  ParsedField string
| AndSelectors field_selector field_selector
| OneTermEqualSelector string string

record LabelFieldSelector =
  Label :: label_selector
  Field :: field_selector

record SelectorListener =
  l_nodeName :: string
  l_gvr :: GVR
  l_selector :: LabelFieldSelector

record ResourceAttributes =
  ra_Namespace :: string
  ra_Verb :: string
  ra_Group :: string
  ra_Resource :: string
  ra_Name :: string
  ra_Subresource :: string

record SubjectAccessReviewStatus =
  Allowed :: bool
  sar_Reason :: string
  EvaluationError :: string

text \<open>A \<^verbatim>\<open>dynamic.Interface\<close>: the shared default client, or one bound to a bearer
  token.\<close>

datatype Client = DefaultClient | TokenClient string

text \<open>One call on \<^verbatim>\<open>kubeClient.Resource(gvr).Namespace(ns)\<close>.\<close>

datatype call =
  CallList GVR string ListOptions
| CallGet GVR string string object
| CallCreate GVR string object object "string list"
| CallDelete GVR string string object
| CallUpdate GVR string object object "string list"
| CallUpdateStatus GVR string object object
| CallPatch GVR string string string bytes object "string list"

text \<open>What the Center does to the outside, in order: an access review with a bearer
  token, a backend call, a listener registration, a reply sent to the edge.\<close>

datatype effect =
  AccessReview string ResourceAttributes
| Backend Client call
| ListenerAdded SelectorListener
| Responded string string Application

text \<open>
  The functions of other packages and the state of the process, as one record. A decoder
  is \<^verbatim>\<open>json.Unmarshal\<close> into the type named; \<open>Unmarshal_DeleteOptions\<close> decodes into a
  pointer to a pointer, so it may leave \<^verbatim>\<open>nil\<close> (\<open>None\<close>). \<open>Errorf\<close> is \<^verbatim>\<open>fmt.Errorf\<close>
  given its argument as the format and no operands.
\<close>

record env =
  sha256_hex :: "bytes \<Rightarrow> string"
  KeyFuncReq :: "Context \<Rightarrow> error + string"
  Convert_ListOptions :: "object \<Rightarrow> object"
  json_Marshal :: "object \<Rightarrow> error + bytes"
  GetContentData :: "Message \<Rightarrow> error + bytes"
  json_Unmarshal_Application :: "bytes \<Rightarrow> error + Application"
  beehive_done :: bool
  RequireAuthorization :: bool
  ParseKey :: "string \<Rightarrow> GVR \<times> string \<times> string"
  SelfSubjectAccessReview :: "string \<Rightarrow> ResourceAttributes \<Rightarrow> error + SubjectAccessReviewStatus"
  NewSelector :: "string \<Rightarrow> string \<Rightarrow> LabelFieldSelector"
  NewSelectorListener :: "string \<Rightarrow> GVR \<Rightarrow> LabelFieldSelector \<Rightarrow> SelectorListener"
  AddListener :: "SelectorListener \<Rightarrow> error option"
  backend :: "Client \<Rightarrow> call \<Rightarrow> error + object"
  Unmarshal_ListOptions :: "bytes \<Rightarrow> error + ListOptions"
  Unmarshal_GetOptions :: "bytes \<Rightarrow> error + object"
  Unmarshal_CreateOptions :: "bytes \<Rightarrow> error + object"
  Unmarshal_DeleteOptions :: "bytes \<Rightarrow> error + object option"
  Unmarshal_UpdateOptions :: "bytes \<Rightarrow> error + object"
  Unmarshal_Unstructured :: "bytes \<Rightarrow> error + object"
  Unmarshal_PatchInfo :: "bytes \<Rightarrow> error + PatchInfo"
  Errorf :: "string \<Rightarrow> string"
  MessageFilter :: "object \<Rightarrow> string \<Rightarrow> object"
  BuildResource :: "string \<Rightarrow> string \<Rightarrow> string \<Rightarrow> string \<Rightarrow> error + string"

section \<open>The Agent's operations\<close>

text \<open>\<^verbatim>\<open>toBytes\<close>: nil gives nil, bytes are kept, anything else is marshalled; a marshal
  error is logged and the (nil) bytes returned.\<close>

definition toBytes :: "env \<Rightarrow> iface \<Rightarrow> bytes" where
  "toBytes env i =
     (case i of
        INil \<Rightarrow> []
      | IBytes b \<Rightarrow> b
      | InternalListOptions v \<Rightarrow> (case json_Marshal env v of Inl err \<Rightarrow> [] | Inr b \<Rightarrow> b)
      | IValue v \<Rightarrow> (case json_Marshal env v of Inl err \<Rightarrow> [] | Inr b \<Rightarrow> b))"

definition newApplication ::
  "env \<Rightarrow> Context \<Rightarrow> string \<Rightarrow> applicationVerb \<Rightarrow> string \<Rightarrow> string \<Rightarrow> iface \<Rightarrow> iface
     \<Rightarrow> error + Application" where
  "newApplication env c key verb nodename subresource option reqBody =
     (let option = (case option of
                      InternalListOptions internal \<Rightarrow> IValue (Convert_ListOptions env internal)
                    | _ \<Rightarrow> option)
      in case AuthorizationValue c of
           NoValue \<Rightarrow> Inl (Plain (''unsupported Token type :'' @ ''<nil>''))
         | OtherValue ty \<Rightarrow> Inl (Plain (''unsupported Token type :'' @ ty))
         | StringValue token \<Rightarrow>
             Inr (add \<lparr>ID = [], Key = key, Verb = verb, Nodename = nodename,
                       Status = PreApplying, Reason = [], Option = toBytes env option,
                       ReqBody = toBytes env reqBody, RespBody = [],
                       Subresource = subresource, Error = StatusError [] [] 0,
                       Token = token, ctx = WithCancel (Done c), count = 0,
                       timestamp = 0\<rparr>))"

text \<open>
  The Agent's table is a \<^verbatim>\<open>sync.Map\<close> from fingerprint to \<^verbatim>\<open>*Application\<close>. Pointers
  matter (callers share the stored instance), so Applications live in a heap, a pointer
  is an index into it, and the table is an association list from fingerprint to pointer.
  \<open>sent\<close> logs the bodies of the messages handed to \<^verbatim>\<open>SendSync\<close>.
\<close>

type_synonym pointer = nat

record Agent =
  Applications :: "(string \<times> pointer) list"
  nodeName :: string

record world =
  heap :: "Application list"
  agent :: Agent
  sent :: "Application list"

definition Load :: "(string \<times> pointer) list \<Rightarrow> string \<Rightarrow> pointer option" where
  "Load t k = map_of t k"

definition LoadOrStore ::
  "(string \<times> pointer) list \<Rightarrow> string \<Rightarrow> pointer \<Rightarrow> pointer \<times> bool \<times> (string \<times> pointer) list" where
  "LoadOrStore t k v =
     (case map_of t k of Some actual \<Rightarrow> (actual, True, t)
      | None \<Rightarrow> (v, False, AList.update k v t))"

definition Generate ::
  "env \<Rightarrow> world \<Rightarrow> Context \<Rightarrow> applicationVerb \<Rightarrow> iface \<Rightarrow> iface \<Rightarrow> (error + pointer) \<times> world" where
  "Generate env w c verb option obj =
     (case KeyFuncReq env c of
        Inl err \<Rightarrow> (Inl err, w)
      | Inr key \<Rightarrow>
          (case RequestInfo c of
             None \<Rightarrow> (Inl (Plain ''no request info in context''), w)
           | Some info \<Rightarrow>
               if \<not> IsResourceRequest info
               then (Inl (Plain ''no request info in context''), w)
               else
                 (case newApplication env c key verb (nodeName (agent w))
                         (ri_Subresource info) option obj of
                    Inl err \<Rightarrow> (Inl err, w)
                  | Inr new \<Rightarrow>
                      let app = length (heap w);
                          w = w\<lparr>heap := heap w @ [new]\<rparr>;
                          (i, a) = Identifier (sha256_hex env) (heap w ! app);
                          w = w\<lparr>heap := (heap w)[app := a]\<rparr>;
                          (store, ok, t) = LoadOrStore (Applications (agent w)) i app;
                          w = w\<lparr>agent := (agent w)\<lparr>Applications := t\<rparr>\<rparr>
                      in if ok
                         then (Inr store, w\<lparr>heap := (heap w)[store := add (heap w ! store)]\<rparr>)
                         else (Inr app, w))))"






definition msgToApplication :: "env \<Rightarrow> Message \<Rightarrow> error + Application" where
  "msgToApplication env msg =
     (case GetContentData env msg of
        Inl err \<Rightarrow> Inl err
      | Inr contentData \<Rightarrow>
          (case json_Unmarshal_Application env contentData of
             Inl err \<Rightarrow> Inl err
           | Inr app \<Rightarrow> Inr app))"

text \<open>
  \<^verbatim>\<open>doApply\<close> in its two halves, around the blocking \<^verbatim>\<open>SendSync\<close>: the first marks the
  Application and hands the message over, the second takes what \<^verbatim>\<open>SendSync\<close> returned
  (an error, a timeout included, or the reply) and ends with the deferred \<^verbatim>\<open>Call\<close>.
\<close>

definition doApply_send :: "Application \<Rightarrow> Application" where
  "doApply_send app = app\<lparr>Status := InApplying\<rparr>"

definition doApply_finish :: "env \<Rightarrow> error + Message \<Rightarrow> Application \<Rightarrow> Application" where
  "doApply_finish env reply app =
     Call (case reply of
             Inl err \<Rightarrow>
               app\<lparr>Status := Failed,
                   Reason := ''failed to access cloud Application center: '' @ Error_text err\<rparr>
           | Inr resp \<Rightarrow>
               (case msgToApplication env resp of
                  Inl err \<Rightarrow>
                    app\<lparr>Status := Failed,
                        Reason := ''failed to get Application from resp msg: '' @ Error_text err\<rparr>
                | Inr retApp \<Rightarrow>
                    app\<lparr>Status := Status retApp, Reason := Reason retApp,
                        Error := Error retApp, RespBody := RespBody retApp\<rparr>))"

definition doApply :: "env \<Rightarrow> error + Message \<Rightarrow> Application \<Rightarrow> Application" where
  "doApply env reply app = doApply_finish env reply (doApply_send app)"



text \<open>
  \<^verbatim>\<open>GC\<close>. Durations are \<^verbatim>\<open>int64\<close> nanoseconds and \<^verbatim>\<open>time.Since\<close> saturates; \<open>clock k\<close>
  is the reading of \<^verbatim>\<open>time.Now()\<close> when the sweep visits key \<open>k\<close>. \<^verbatim>\<open>Range\<close> walks the
  entries present when it starts.
\<close>

definition Minute :: int where "Minute = 60 * 1000000000"
definition maxDuration :: int where "maxDuration = 2 ^ 63 - 1"
definition minDuration :: int where "minDuration = - (2 ^ 63)"

definition time_Since :: "int \<Rightarrow> int \<Rightarrow> int" where
  "time_Since now t =
     (let d = now - t
      in if d > maxDuration then maxDuration else if d < minDuration then minDuration else d)"

fun GC_Range ::
  "(string \<Rightarrow> int) \<Rightarrow> Application list \<Rightarrow> (string \<times> pointer) list \<Rightarrow> (string \<times> pointer) list
     \<Rightarrow> (string \<times> pointer) list" where
  "GC_Range clock h [] t = t"
| "GC_Range clock h ((key, value) # es) t =
     (let app = h ! value;
          lastCloseTime = LastCloseTime app;
          t = (if lastCloseTime \<noteq> 0 \<and> time_Since (clock key) lastCloseTime \<ge> Minute * 5
               then AList.delete key t else t)
      in GC_Range clock h es t)"

definition GC :: "(string \<Rightarrow> int) \<Rightarrow> world \<Rightarrow> world" where
  "GC clock w =
     w\<lparr>agent := (agent w)\<lparr>Applications :=
          GC_Range clock (heap w) (Applications (agent w)) (Applications (agent w))\<rparr>\<rparr>"

section \<open>The cloud-side Center\<close>

text \<open>\<^verbatim>\<open>strings.SplitN(s, " ", n)\<close> for \<open>n \<ge> 0\<close>.\<close>

fun SplitN :: "string \<Rightarrow> nat \<Rightarrow> string list" where
  "SplitN s 0 = []"
| "SplitN s (Suc 0) = [s]"
| "SplitN s (Suc (Suc n)) =
     (if CHR '' '' \<in> set s
      then takeWhile (\<lambda>c. c \<noteq> CHR '' '') s
             # SplitN (tl (dropWhile (\<lambda>c. c \<noteq> CHR '' '') s)) (Suc n)
      else [s])"

text \<open>\<^verbatim>\<open>strings.ToLower\<close> on the ASCII letters. No other character lowers to a letter of
  \<^verbatim>\<open>bearer\<close>, so the comparison below is the source's.\<close>

definition ToLower :: "string \<Rightarrow> string" where
  "ToLower s =
     map (\<lambda>c. case map_of (zip ''ABCDEFGHIJKLMNOPQRSTUVWXYZ'' ''abcdefghijklmnopqrstuvwxyz'') c of
                None \<Rightarrow> c
              | Some l \<Rightarrow> l) s"

text \<open>\<^verbatim>\<open>%v\<close> of a small non-negative \<^verbatim>\<open>int\<close>.\<close>

function Itoa :: "nat \<Rightarrow> string" where
  "Itoa n = (if n < 10 then [''0123456789'' ! n] else Itoa (n div 10) @ [''0123456789'' ! (n mod 10)])"
  by pat_completeness auto
termination
  by (relation "measure id") auto

declare Itoa.simps [simp del]

text \<open>\<^verbatim>\<open>generateNewConfig\<close>: the result is the configuration's bearer token, the rest of
  the configuration being the Center's own. The clients are then built with
  \<^verbatim>\<open>NewForConfigOrDie\<close>, taken to succeed on a copy of the configuration the Center runs
  with.\<close>

definition generateNewConfig :: "string \<Rightarrow> error + string" where
  "generateNewConfig raw =
     (let parts = SplitN raw 3
      in if length parts < 2 \<or> ToLower (parts ! 0) \<noteq> ''bearer'' \<or> length (parts ! 1) \<le> 0
         then Inl (Plain (''invalid request token format or length: '' @ Itoa (length parts)))
         else Inr (parts ! 1))"

definition createAuthClient :: "Application \<Rightarrow> error + string" where
  "createAuthClient app =
     (case generateNewConfig (Token app) of Inl err \<Rightarrow> Inl err | Inr authConfig \<Rightarrow> Inr authConfig)"

definition createKubeClient :: "env \<Rightarrow> Application \<Rightarrow> error + Client" where
  "createKubeClient env app =
     (if \<not> RequireAuthorization env then Inr DefaultClient
      else case generateNewConfig (Token app) of
             Inl err \<Rightarrow> Inl err
           | Inr authConfig \<Rightarrow> Inr (TokenClient authConfig))"

definition GVR_String :: "GVR \<Rightarrow> string" where
  "GVR_String gvr = Group gvr @ ''/'' @ Version gvr @ '', Resource='' @ Resource gvr"

definition authorizeApplication ::
  "env \<Rightarrow> Application \<Rightarrow> GVR \<Rightarrow> string \<Rightarrow> string \<Rightarrow> error option \<times> effect list" where
  "authorizeApplication env app gvr namespace name =
     (if \<not> RequireAuthorization env then (None, [])
      else case createAuthClient app of
             Inl err \<Rightarrow> (Some err, [])
           | Inr tmpAuthClient \<Rightarrow>
               let sar = \<lparr>ra_Namespace = namespace, ra_Verb = Verb app, ra_Group = Group gvr,
                          ra_Resource = Resource gvr, ra_Name = name,
                          ra_Subresource = Subresource app\<rparr>
               in case SelfSubjectAccessReview env tmpAuthClient sar of
                    Inl err \<Rightarrow> (Some err, [AccessReview tmpAuthClient sar])
                  | Inr response \<Rightarrow>
                      if Allowed response then (None, [AccessReview tmpAuthClient sar])
                      else
                        let errMsg = ''resource '' @ GVR_String gvr @ '' authorize failed.'';
                            errMsg = (if length (sar_Reason response) > 0
                                      then errMsg @ ''reason: '' @ sar_Reason response @ ''.''
                                      else errMsg);
                            errMsg = (if length (EvaluationError response) > 0
                                      then errMsg @ ''evaluation error: ''
                                             @ EvaluationError response @ ''.''
                                      else errMsg)
                        in (Some (Plain (Errorf env errMsg)), [AccessReview tmpAuthClient sar]))"

definition ToListener :: "env \<Rightarrow> Application \<Rightarrow> ListOptions \<Rightarrow> SelectorListener" where
  "ToListener env a option =
     (let (gvr, namespace, name) = ParseKey env (Key a);
          selector = NewSelector env (LabelSelector option) (FieldSelector option);
          selector = (if namespace \<noteq> []
                      then selector\<lparr>Field := AndSelectors (Field selector)
                                      (OneTermEqualSelector ''metadata.namespace'' namespace)\<rparr>
                      else selector)
      in NewSelectorListener env (Nodename a) gvr selector)"

definition OptionTo :: "(bytes \<Rightarrow> error + 'a) \<Rightarrow> Application \<Rightarrow> error + 'a" where
  "OptionTo unmarshal a =
     (case unmarshal (Option a) of
        Inl err \<Rightarrow> Inl (Plain (''failed to prase Option bytes, '' @ Error_text err))
      | Inr i \<Rightarrow> Inr i)"

definition ReqBodyTo :: "(bytes \<Rightarrow> error + 'a) \<Rightarrow> Application \<Rightarrow> error + 'a" where
  "ReqBodyTo unmarshal a =
     (case unmarshal (ReqBody a) of
        Inl err \<Rightarrow> Inl (Plain (''failed to parse ReqBody bytes, '' @ Error_text err))
      | Inr i \<Rightarrow> Inr i)"

text \<open>What \<^verbatim>\<open>ProcessApplication\<close> ends with: a payload (nil for watch and delete), an
  error, or a panic on a nil pointer.\<close>

datatype outcome = Ok "object option" | Err error | Panic

text \<open>A backend call through \<^verbatim>\<open>kubeClient\<close>, which is nil on the watch path.\<close>

definition invoke ::
  "env \<Rightarrow> Client option \<Rightarrow> call \<Rightarrow> (error \<Rightarrow> error) \<Rightarrow> (object \<Rightarrow> object option)
     \<Rightarrow> outcome \<times> effect list" where
  "invoke env kubeClient c wrap payload =
     (case kubeClient of
        None \<Rightarrow> (Panic, [])
      | Some k \<Rightarrow>
          (case backend env k c of
             Inl err \<Rightarrow> (Err (wrap err), [Backend k c])
           | Inr retObj \<Rightarrow> (Ok (payload retObj), [Backend k c])))"

text \<open>The \<^verbatim>\<open>switch app.Verb\<close> of \<^verbatim>\<open>ProcessApplication\<close>.\<close>

definition dispatch ::
  "env \<Rightarrow> Application \<Rightarrow> GVR \<Rightarrow> string \<Rightarrow> string \<Rightarrow> Client option \<Rightarrow> outcome \<times> effect list" where
  "dispatch env app gvr ns name kubeClient =
     (if Verb app = List then
        (case OptionTo (Unmarshal_ListOptions env) app of
           Inl err \<Rightarrow> (Err err, [])
         | Inr option \<Rightarrow>
             invoke env kubeClient (CallList gvr ns option)
               (\<lambda>err. Plain (''get current list error: '' @ Error_text err)) Some)
      else if Verb app = Watch then
        (case OptionTo (Unmarshal_ListOptions env) app of
           Inl err \<Rightarrow> (Err err, [])
         | Inr option \<Rightarrow>
             (case AddListener env (ToListener env app option) of
                Some err \<Rightarrow>
                  (Err (Plain (''failed to add listener, '' @ Error_text err)),
                   [ListenerAdded (ToListener env app option)])
              | None \<Rightarrow> (Ok None, [ListenerAdded (ToListener env app option)])))
      else if Verb app = Get then
        (case OptionTo (Unmarshal_GetOptions env) app of
           Inl err \<Rightarrow> (Err err, [])
         | Inr option \<Rightarrow> invoke env kubeClient (CallGet gvr ns name option) id Some)
      else if Verb app = Create then
        (case OptionTo (Unmarshal_CreateOptions env) app of
           Inl err \<Rightarrow> (Err err, [])
         | Inr option \<Rightarrow>
             (case ReqBodyTo (Unmarshal_Unstructured env) app of
                Inl err \<Rightarrow> (Err err, [])
              | Inr obj \<Rightarrow>
                  if Subresource app = []
                  then invoke env kubeClient (CallCreate gvr ns obj option []) id Some
                  else invoke env kubeClient (CallCreate gvr ns obj option [Subresource app])
                         id Some))
      else if Verb app = Delete then
        (case OptionTo (Unmarshal_DeleteOptions env) app of
           Inl err \<Rightarrow> (Err err, [])
         | Inr None \<Rightarrow> (Panic, [])
         | Inr (Some option) \<Rightarrow>
             invoke env kubeClient (CallDelete gvr ns name option) id (\<lambda>_. None))
      else if Verb app = Update then
        (case OptionTo (Unmarshal_UpdateOptions env) app of
           Inl err \<Rightarrow> (Err err, [])
         | Inr option \<Rightarrow>
             (case ReqBodyTo (Unmarshal_Unstructured env) app of
                Inl err \<Rightarrow> (Err err, [])
              | Inr obj \<Rightarrow>
                  if Subresource app = []
                  then invoke env kubeClient (CallUpdate gvr ns obj option []) id Some
                  else invoke env kubeClient (CallUpdate gvr ns obj option [Subresource app])
                         id Some))
      else if Verb app = UpdateStatus then
        (case OptionTo (Unmarshal_UpdateOptions env) app of
           Inl err \<Rightarrow> (Err err, [])
         | Inr option \<Rightarrow>
             (case ReqBodyTo (Unmarshal_Unstructured env) app of
                Inl err \<Rightarrow> (Err err, [])
              | Inr obj \<Rightarrow> invoke env kubeClient (CallUpdateStatus gvr ns obj option) id Some))
      else if Verb app = Patch then
        (case OptionTo (Unmarshal_PatchInfo env) app of
           Inl err \<Rightarrow> (Err err, [])
         | Inr pi \<Rightarrow>
             invoke env kubeClient
               (CallPatch gvr ns (Name pi) (PatchType pi) (Data pi) (Options pi) (Subresources pi))
               id Some)
      else (Err (Plain (''unsupported Application Verb type :'' @ Verb app)), []))"

definition ProcessApplication :: "env \<Rightarrow> Application \<Rightarrow> outcome \<times> Application \<times> effect list" where
  "ProcessApplication env app =
     (let app = app\<lparr>Status := InProcessing\<rparr>;
          (gvr, ns, name) = ParseKey env (Key app)
      in if Verb app \<noteq> Watch
         then (case createKubeClient env app of
                 Inl err \<Rightarrow> (Err err, app, [])
               | Inr kubeClient \<Rightarrow>
                   let (r, fx) = dispatch env app gvr ns name (Some kubeClient) in (r, app, fx))
         else (case authorizeApplication env app gvr ns name of
                 (Some err, fx) \<Rightarrow> (Err err, app, fx)
               | (None, fx) \<Rightarrow>
                   let (r, fx') = dispatch env app gvr ns name None in (r, app, fx @ fx')))"

definition Ignore :: string where "Ignore = ''ignore''"
definition ApplicationResource :: string where "ApplicationResource = ''Application''"

definition Response ::
  "env \<Rightarrow> Application \<Rightarrow> string \<Rightarrow> applicationStatus \<Rightarrow> error option \<Rightarrow> object option
     \<Rightarrow> Application \<times> effect list" where
  "Response env app parentID status err respContent =
     (let app = app\<lparr>Status := status\<rparr>;
          app = (case err of
                   None \<Rightarrow> app
                 | Some (APIStatus apierr) \<Rightarrow> app\<lparr>Error := apierr\<rparr>
                 | Some (Plain t) \<Rightarrow> app\<lparr>Reason := t\<rparr>);
          app = (case respContent of
                   None \<Rightarrow> app
                 | Some c \<Rightarrow>
                     let c = (if Verb app = List \<or> Verb app = Get
                              then MessageFilter env c (Nodename app) else c)
                     in app\<lparr>RespBody := toBytes env (IValue c)\<rparr>)
      in case BuildResource env (Nodename app) Ignore ApplicationResource Ignore of
           Inl err \<Rightarrow> (app, [])
         | Inr resource \<Rightarrow> (app, [Responded parentID resource app]))"

datatype process_end = Dropped | Finished Application | Panicked

definition Process :: "env \<Rightarrow> Message \<Rightarrow> process_end \<times> effect list" where
  "Process env msg =
     (case msgToApplication env msg of
        Inl err \<Rightarrow> (Dropped, [])
      | Inr app \<Rightarrow>
          (case ProcessApplication env app of
             (Err err, app, fx) \<Rightarrow>
               let (app, fx') = Response env app (GetID msg) Rejected (Some err) None
               in (Finished app, fx @ fx')
           | (Ok resp, app, fx) \<Rightarrow>
               let (app, fx') = Response env app (GetID msg) Approved None resp
               in (Finished app, fx @ fx')
           | (Panic, app, fx) \<Rightarrow> (Panicked, fx)))"

section \<open>Auxiliary notions and example data\<close>

text \<open>The fields the fingerprint is formed from.\<close>

definition fingerprint_fields ::
  "Application \<Rightarrow> string \<times> string \<times> string \<times> bytes \<times> bytes \<times> string \<times> string" where
  "fingerprint_fields a =
     (Nodename a, Key a, Verb a, Option a, ReqBody a, Subresource a, Token a)"

text \<open>An Application as \<^verbatim>\<open>newApplication\<close> leaves it for one caller.\<close>

definition demo_app :: Application where
  "demo_app =
     \<lparr>ID = [], Key = ''/apps/v1/deployments/default/web'', Verb = Get, Nodename = ''edge1'',
      Status = PreApplying, Reason = [], Option = ''{}'', ReqBody = [], RespBody = [],
      Subresource = [], Error = StatusError [] [] 0, Token = ''Bearer abc'',
      ctx = Some False, count = 1, timestamp = 0\<rparr>"

definition demo_reply :: Application where
  "demo_reply =
     \<lparr>ID = [], Key = ''/apps/v1/deployments/default/web'', Verb = Get, Nodename = ''edge1'',
      Status = Approved, Reason = [], Option = ''{}'', ReqBody = [], RespBody = ''deployment-web'',
      Subresource = [], Error = StatusError [] [] 0, Token = ''Bearer abc'',
      ctx = None, count = 0, timestamp = 0\<rparr>"

definition demo_watch :: Application where
  "demo_watch = demo_app\<lparr>Verb := Watch, Token := ''Bearer stolen''\<rparr>"

definition demo_gvr :: GVR where
  "demo_gvr = \<lparr>Group = ''apps'', Version = ''v1'', Resource = ''deployments''\<rparr>"

definition demo_env :: env where
  "demo_env =
     \<lparr>sha256_hex = (\<lambda>b. ''sha256:'' @ b),
      KeyFuncReq = (\<lambda>c. Inr ''/apps/v1/deployments/default/web''),
      Convert_ListOptions = (\<lambda>v. v),
      json_Marshal = (\<lambda>v. case v of Object s \<Rightarrow> Inr s),
      GetContentData = (\<lambda>m. case Content m of Object s \<Rightarrow> Inr s),
      json_Unmarshal_Application =
        (\<lambda>b. if b = ''approved'' then Inr demo_reply
             else if b = ''watch'' then Inr demo_watch
             else Inl (Plain ''unexpected end of JSON input'')),
      beehive_done = False,
      RequireAuthorization = True,
      ParseKey = (\<lambda>k. (demo_gvr, ''default'', ''web'')),
      SelfSubjectAccessReview =
        (\<lambda>token ra. Inr \<lparr>Allowed = (token = ''abc''), sar_Reason = ''no RBAC rule'', EvaluationError = []\<rparr>),
      NewSelector = (\<lambda>ls fs. \<lparr>Label = ParsedLabel ls, Field = ParsedField fs\<rparr>),
      NewSelectorListener =
        (\<lambda>node gvr selector. \<lparr>l_nodeName = node, l_gvr = gvr, l_selector = selector\<rparr>),
      AddListener = (\<lambda>l. None),
      backend = (\<lambda>k c. Inr (Object ''{}'')),
      Unmarshal_ListOptions =
        (\<lambda>b. Inr \<lparr>LabelSelector = ''app=web'', FieldSelector = ''status.phase=Running'', others = Object b\<rparr>),
      Unmarshal_GetOptions = (\<lambda>b. Inr (Object b)),
      Unmarshal_CreateOptions = (\<lambda>b. Inr (Object b)),
      Unmarshal_DeleteOptions = (\<lambda>b. Inr (Some (Object b))),
      Unmarshal_UpdateOptions = (\<lambda>b. Inr (Object b)),
      Unmarshal_Unstructured = (\<lambda>b. Inr (Object b)),
      Unmarshal_PatchInfo =
        (\<lambda>b. Inr \<lparr>Name = ''web'', PatchType = ''application/merge-patch+json'', Data = b,
                  Options = Object [], Subresources = []\<rparr>),
      Errorf = (\<lambda>s. s),
      MessageFilter = (\<lambda>c n. c),
      BuildResource = (\<lambda>a b c d. Inr (''node/'' @ a @ ''/'' @ b @ ''/'' @ c @ ''/'' @ d))\<rparr>"

definition demo_ctx :: Context where
  "demo_ctx =
     \<lparr>RequestInfo = Some \<lparr>IsResourceRequest = True, ri_Subresource = []\<rparr>,
      AuthorizationValue = StringValue ''Bearer abc'', Done = False\<rparr>"

definition demo_world :: world where
  "demo_world = \<lparr>heap = [], agent = \<lparr>Applications = [], nodeName = ''edge1''\<rparr>, sent = []\<rparr>"

text \<open>The Application that a \<^verbatim>\<open>Generate\<close> call builds before it consults the table.\<close>

definition requested ::
  "env \<Rightarrow> string \<Rightarrow> Context \<Rightarrow> applicationVerb \<Rightarrow> iface \<Rightarrow> iface \<Rightarrow> error + Application" where
  "requested env nodename c verb option obj =
     (case KeyFuncReq env c of
        Inl err \<Rightarrow> Inl err
      | Inr key \<Rightarrow>
          (case RequestInfo c of
             None \<Rightarrow> Inl (Plain ''no request info in context'')
           | Some info \<Rightarrow>
               if \<not> IsResourceRequest info then Inl (Plain ''no request info in context'')
               else newApplication env c key verb nodename (ri_Subresource info) option obj))"

text \<open>Every pointer in the table points into the heap, and the table has one entry per
  key, as a \<^verbatim>\<open>sync.Map\<close> has.\<close>

definition pointers_valid :: "world \<Rightarrow> bool" where
  "pointers_valid w = list_all (\<lambda>(k, p). p < length (heap w)) (Applications (agent w))"

definition keys_distinct :: "world \<Rightarrow> bool" where
  "keys_distinct w = distinct (map fst (Applications (agent w)))"

text \<open>The table key of an Application whose \<^verbatim>\<open>ID\<close> is not yet set.\<close>

definition fingerprint :: "env \<Rightarrow> Application \<Rightarrow> string" where
  "fingerprint env a =
     sha256_hex env (Nodename a @ Key a @ Verb a @ Option a @ ReqBody a @ Subresource a @ Token a)"





definition expired :: "(string \<Rightarrow> int) \<Rightarrow> Application list \<Rightarrow> string \<Rightarrow> pointer \<Rightarrow> bool" where
  "expired clock h k p =
     (LastCloseTime (h ! p) \<noteq> 0 \<and> clock k - LastCloseTime (h ! p) \<ge> 5 * Minute)"

definition demo_idle :: world where
  "demo_idle =
     \<lparr>heap = [demo_app\<lparr>ID := ''f1''\<rparr>,
              demo_app\<lparr>ID := ''f2'', Status := Completed, count := 0, timestamp := 1000\<rparr>,
              demo_app\<lparr>ID := ''f3'', Status := Completed, count := 0,
                timestamp := 200000000000\<rparr>],
      agent = \<lparr>Applications = [(''f1'', 0), (''f2'', 1), (''f3'', 2)], nodeName = ''edge1''\<rparr>,
      sent = []\<rparr>"

text \<open>The listener registrations, backend calls and access reviews among the effects.\<close>

definition listeners :: "effect list \<Rightarrow> SelectorListener list" where
  "listeners fx = concat (map (\<lambda>e. case e of ListenerAdded l \<Rightarrow> [l] | _ \<Rightarrow> []) fx)"

definition backend_calls :: "effect list \<Rightarrow> (Client \<times> call) list" where
  "backend_calls fx = concat (map (\<lambda>e. case e of Backend k c \<Rightarrow> [(k, c)] | _ \<Rightarrow> []) fx)"

definition reviews :: "effect list \<Rightarrow> (string \<times> ResourceAttributes) list" where
  "reviews fx = concat (map (\<lambda>e. case e of AccessReview t ra \<Rightarrow> [(t, ra)] | _ \<Rightarrow> []) fx)"

section \<open>Reference counting, Reset, Identifier and doApply\<close>

lemma unat_minus_one_64: "w \<noteq> 0 \<Longrightarrow> unat (w - 1) = unat w - 1" for w :: "64 word"
  by (simp add: unat_minus_one)

lemma unat_plus_one_64: "w \<noteq> - 1 \<Longrightarrow> unat (w + 1) = unat w + 1" for w :: "64 word"
proof -
  assume "w \<noteq> - 1"
  then have "1 + w \<noteq> 0"
    by (simp add: add_eq_0_iff)
  then show ?thesis
    using unatSuc [of w] by (simp add: add.commute)
qed

text \<open>
  C6. \<^verbatim>\<open>add\<close> increments the reference count by one (as a \<^verbatim>\<open>uint64\<close>; as a number
  too unless the count is at its maximum). \<^verbatim>\<open>Close\<close> on a positive count decrements it
  by one, stamps the timestamp with the current time, and sets Status to Completed when
  the decremented count is zero and leaves Status alone when it is not.
\<close>

theorem refcount_add_Close:
  "count (add a) = count a + 1
   \<and> (count a \<noteq> - 1 \<longrightarrow> unat (count (add a)) = unat (count a) + 1)
   \<and> (count a \<noteq> 0 \<longrightarrow>
        count (Close now a) = count a - 1
        \<and> unat (count (Close now a)) = unat (count a) - 1
        \<and> timestamp (Close now a) = now
        \<and> Status (Close now a) = (if count a - 1 = 0 then Completed else Status a))"
  by (simp add: add_def Close_def Let_def unat_minus_one_64 unat_plus_one_64)

theorem refcount_add_Close_witness:
  "count demo_app \<noteq> - 1 \<and> count demo_app \<noteq> 0 \<and> unat (count (add demo_app)) = 2
   \<and> count (Close 7 demo_app) = 0 \<and> timestamp (Close 7 demo_app) = 7
   \<and> Status (Close 7 demo_app) = Completed"
  using refcount_add_Close [of demo_app 7] by (simp add: demo_app_def)

text \<open>
  C9. On a Completed Application \<^verbatim>\<open>Reset\<close> empties Reason and RespBody and puts a fresh
  cancellable context in place of the old one, a child of the process-wide context, so
  that a waiter blocks on it again unless the whole process is already cancelled. Status,
  the reference count and the identity-forming fields ID, Key, Verb, Nodename,
  Subresource, Option, ReqBody and Token are unchanged.
\<close>

theorem Reset_frame:
  "Status a = Completed \<Longrightarrow>
   Reason (Reset root_done a) = [] \<and> RespBody (Reset root_done a) = []
   \<and> ctx (Reset root_done a) = WithCancel root_done
   \<and> (\<not> root_done \<longrightarrow> \<not> Wait_returns (Reset root_done a))
   \<and> Status (Reset root_done a) = Status a \<and> count (Reset root_done a) = count a
   \<and> ID (Reset root_done a) = ID a \<and> Key (Reset root_done a) = Key a
   \<and> Verb (Reset root_done a) = Verb a \<and> Nodename (Reset root_done a) = Nodename a
   \<and> Subresource (Reset root_done a) = Subresource a \<and> Option (Reset root_done a) = Option a
   \<and> ReqBody (Reset root_done a) = ReqBody a \<and> Token (Reset root_done a) = Token a"
  by (simp add: Reset_def WithCancel_def Wait_returns_def)

theorem Reset_frame_witness:
  "Status (Close 7 demo_app) = Completed
   \<and> Reason (Reset False ((Close 7 demo_app)\<lparr>Reason := ''old''\<rparr>)) = []
   \<and> \<not> Wait_returns (Reset False ((Close 7 demo_app)\<lparr>Reason := ''old''\<rparr>))
   \<and> Status (Reset False ((Close 7 demo_app)\<lparr>Reason := ''old''\<rparr>)) = Completed"
  using Reset_frame [of "(Close 7 demo_app)\<lparr>Reason := ''old''\<rparr>" False]
  by (simp add: Close_def demo_app_def Let_def)

text \<open>
  C10. \<^verbatim>\<open>Identifier\<close> hashes the bare concatenation of the fields, so two Applications
  that differ in their field tuples (Nodename \<^verbatim>\<open>ab\<close> with an empty Key, Nodename \<^verbatim>\<open>a\<close>
  with Key \<^verbatim>\<open>b\<close>) have the same identifier, whatever the hash function. Through
  \<^verbatim>\<open>Generate\<close> this collapses distinct requests: after a request with option bytes
  \<^verbatim>\<open>ab\<close> and no body, a request with option bytes \<^verbatim>\<open>a\<close> and body \<^verbatim>\<open>b\<close> is handed the
  first request's Application, now with two references, and the table keeps one entry.
  The same happens across the boundary of subresource and token: after a request for
  subresource \<^verbatim>\<open>status\<close> with token \<^verbatim>\<open>Bearer abc\<close>, a request for subresource \<^verbatim>\<open>statu\<close>
  with token \<^verbatim>\<open>sBearer abc\<close> is handed the first one's Application.
\<close>

theorem Identifier_collision:
  "fingerprint_fields (a\<lparr>ID := [], Nodename := ''ab'', Key := []\<rparr>)
     \<noteq> fingerprint_fields (a\<lparr>ID := [], Nodename := ''a'', Key := ''b''\<rparr>)
   \<and> fst (Identifier H (a\<lparr>ID := [], Nodename := ''ab'', Key := []\<rparr>))
     = fst (Identifier H (a\<lparr>ID := [], Nodename := ''a'', Key := ''b''\<rparr>))
   \<and> (let env = demo_env\<lparr>sha256_hex := H\<rparr>;
           (r1, w1) = Generate env demo_world demo_ctx Update (IBytes ''ab'') INil;
           (r2, w2) = Generate env w1 demo_ctx Update (IBytes ''a'') (IBytes ''b'')
       in r1 = Inr 0 \<and> r2 = Inr 0 \<and> length (Applications (agent w2)) = 1
          \<and> count (heap w2 ! 0) = 2
          \<and> Option (heap w2 ! 0) = ''ab'' \<and> ReqBody (heap w2 ! 0) = [])
   \<and> (let env = demo_env\<lparr>sha256_hex := H\<rparr>;
           c1 = demo_ctx\<lparr>RequestInfo := Some \<lparr>IsResourceRequest = True,
                                                 ri_Subresource = ''status''\<rparr>,
                          AuthorizationValue := StringValue ''Bearer abc''\<rparr>;
           c2 = demo_ctx\<lparr>RequestInfo := Some \<lparr>IsResourceRequest = True,
                                                 ri_Subresource = ''statu''\<rparr>,
                          AuthorizationValue := StringValue ''sBearer abc''\<rparr>;
           (r1, w1) = Generate env demo_world c1 Get (IBytes ''{}'') INil;
           (r2, w2) = Generate env w1 c2 Get (IBytes ''{}'') INil
       in r1 = Inr 0 \<and> r2 = Inr 0 \<and> length (Applications (agent w2)) = 1
          \<and> count (heap w2 ! 0) = 2
          \<and> Subresource (heap w2 ! 0) = ''status'' \<and> Token (heap w2 ! 0) = ''Bearer abc'')"
  by (simp add: fingerprint_fields_def Identifier_def Let_def Generate_def demo_env_def
      demo_world_def demo_ctx_def newApplication_def toBytes_def add_def LoadOrStore_def
      WithCancel_def)

theorem Identifier_collision_witness:
  "fst (Identifier (\<lambda>b. b) (demo_app\<lparr>ID := [], Nodename := ''ab'', Key := []\<rparr>))
     = fst (Identifier (\<lambda>b. b) (demo_app\<lparr>ID := [], Nodename := ''a'', Key := ''b''\<rparr>))
   \<and> fst (Identifier (\<lambda>b. b) (demo_app\<lparr>ID := [], Nodename := ''a'', Key := ''b''\<rparr>))
     = ''abget{}Bearer abc''"
  using Identifier_collision [of demo_app "\<lambda>b. b"]
  by (simp add: Identifier_def demo_app_def Get_def Let_def)

text \<open>
  C4. When \<^verbatim>\<open>SendSync\<close> returns an error (a timeout is one), or the reply does not decode
  into an Application, \<^verbatim>\<open>doApply\<close> leaves Status Failed with the Reason made of the
  fixed prefix and the error text, and the deferred \<^verbatim>\<open>Call\<close> has fired the completion
  signal: \<^verbatim>\<open>Wait\<close> returns, and a context that was there is done. The Application is
  then not InApplying. On a reply that does decode, the Status is the reply's and the
  signal has fired as well.
\<close>

theorem doApply_failure:
  "(reply = Inl err \<longrightarrow>
      Status (doApply env reply app) = Failed
      \<and> Reason (doApply env reply app)
          = ''failed to access cloud Application center: '' @ Error_text err
      \<and> Wait_returns (doApply env reply app)
      \<and> (ctx app \<noteq> None \<longrightarrow> ctx (doApply env reply app) = Some True)
      \<and> Status (doApply env reply app) \<noteq> InApplying)
   \<and> (reply = Inr resp \<and> msgToApplication env resp = Inl err \<longrightarrow>
      Status (doApply env reply app) = Failed
      \<and> Reason (doApply env reply app)
          = ''failed to get Application from resp msg: '' @ Error_text err
      \<and> Wait_returns (doApply env reply app)
      \<and> (ctx app \<noteq> None \<longrightarrow> ctx (doApply env reply app) = Some True)
      \<and> Status (doApply env reply app) \<noteq> InApplying)
   \<and> (reply = Inr resp \<and> msgToApplication env resp = Inr retApp \<longrightarrow>
      Status (doApply env reply app) = Status retApp
      \<and> Wait_returns (doApply env reply app))"
  by (auto simp: doApply_def doApply_finish_def doApply_send_def Call_def Wait_returns_def
      Failed_def InApplying_def)


theorem doApply_failure_witness:
  "Status (doApply demo_env (Inl (Plain ''timeout'')) demo_app) = Failed
   \<and> Reason (doApply demo_env (Inl (Plain ''timeout'')) demo_app)
       = ''failed to access cloud Application center: timeout''
   \<and> Wait_returns (doApply demo_env (Inl (Plain ''timeout'')) demo_app)
   \<and> msgToApplication demo_env (Message ''m2'' (Object ''garbage''))
       = Inl (Plain ''unexpected end of JSON input'')
   \<and> Status (doApply demo_env (Inr (Message ''m2'' (Object ''garbage''))) demo_app) = Failed
   \<and> Reason (doApply demo_env (Inr (Message ''m2'' (Object ''garbage''))) demo_app)
       = ''failed to get Application from resp msg: unexpected end of JSON input''
   \<and> msgToApplication demo_env (Message ''m3'' (Object ''approved'')) = Inr demo_reply
   \<and> Status (doApply demo_env (Inr (Message ''m3'' (Object ''approved''))) demo_app) = Approved"
proof -
  have m: "msgToApplication demo_env (Message ''m2'' (Object ''garbage''))
       = Inl (Plain ''unexpected end of JSON input'')"
    by (simp add: msgToApplication_def demo_env_def)
  have m3: "msgToApplication demo_env (Message ''m3'' (Object ''approved'')) = Inr demo_reply"
    by (simp add: msgToApplication_def demo_env_def)
  have st: "Status demo_reply = Approved"
    by (simp add: demo_reply_def)
  show ?thesis
    using doApply_failure [of "Inl (Plain ''timeout'')" "Plain ''timeout''" demo_env demo_app]
      doApply_failure [of "Inr (Message ''m2'' (Object ''garbage''))"
        "Plain ''unexpected end of JSON input''" demo_env demo_app
        "Message ''m2'' (Object ''garbage'')"]
      doApply_failure [of "Inr (Message ''m3'' (Object ''approved''))" _ demo_env demo_app
        "Message ''m3'' (Object ''approved'')" demo_reply] m m3 st
    by simp
qed

section \<open>Deduplication in Generate\<close>

lemma requested_fresh:
  "requested env nodename c verb option obj = Inr a \<Longrightarrow> ID a = [] \<and> Nodename a = nodename"
  by (auto simp: requested_def newApplication_def add_def Let_def
      split: sum.splits option.splits if_splits ctx_value.splits)

lemma Generate_requested_Inl:
  "requested env (nodeName (agent w)) c verb option obj = Inl e \<Longrightarrow>
   Generate env w c verb option obj = (Inl e, w)"
  by (auto simp: requested_def Generate_def split: sum.splits option.splits if_splits)

lemma Generate_requested_hit:
  assumes "requested env (nodeName (agent w)) c verb option obj = Inr a"
    and "Load (Applications (agent w)) (fingerprint env a) = Some p"
    and "p < length (heap w)"
  shows "Generate env w c verb option obj =
     (Inr p, w\<lparr>heap := (heap w @ [a\<lparr>ID := fingerprint env a\<rparr>])[p := add (heap w ! p)]\<rparr>)"
  using assms requested_fresh [OF assms(1)]
  by (auto simp: requested_def Generate_def Let_def Identifier_def LoadOrStore_def Load_def
      fingerprint_def nth_append split: sum.splits option.splits if_splits)

lemma Generate_requested_miss:
  assumes "requested env (nodeName (agent w)) c verb option obj = Inr a"
    and "Load (Applications (agent w)) (fingerprint env a) = None"
  shows "Generate env w c verb option obj =
     (Inr (length (heap w)),
      w\<lparr>heap := heap w @ [a\<lparr>ID := fingerprint env a\<rparr>],
        agent := (agent w)\<lparr>Applications :=
          AList.update (fingerprint env a) (length (heap w)) (Applications (agent w))\<rparr>\<rparr>)"
  using assms requested_fresh [OF assms(1)]
  by (auto simp: requested_def Generate_def Let_def Identifier_def LoadOrStore_def Load_def
      fingerprint_def nth_append split: sum.splits option.splits if_splits)


lemma pointers_valid_Load:
  "pointers_valid w \<Longrightarrow> Load (Applications (agent w)) k = Some p \<Longrightarrow> p < length (heap w)"
  by (auto simp: pointers_valid_def Load_def list_all_iff dest!: map_of_SomeD)

lemma fingerprint_fields_eq:
  "fingerprint_fields a = fingerprint_fields b \<Longrightarrow> fingerprint env a = fingerprint env b"
  by (simp add: fingerprint_fields_def fingerprint_def)

lemma Generate_first:
  assumes valid: "pointers_valid w"
    and req1: "requested env (nodeName (agent w)) c1 verb1 option1 obj1 = Inr a1"
    and gen1: "Generate env w c1 verb1 option1 obj1 = (r1, w1)"
  shows "\<exists>p. r1 = Inr p \<and> p < length (heap w1) \<and> nodeName (agent w1) = nodeName (agent w)
      \<and> Load (Applications (agent w1)) (fingerprint env a1) = Some p
      \<and> (keys_distinct w \<longrightarrow> keys_distinct w1)"
proof (cases "Load (Applications (agent w)) (fingerprint env a1)")
  case None
  from Generate_requested_miss [OF req1 None] gen1
  have r1: "r1 = Inr (length (heap w))"
    and w1: "w1 = w\<lparr>heap := heap w @ [a1\<lparr>ID := fingerprint env a1\<rparr>],
        agent := (agent w)\<lparr>Applications :=
          AList.update (fingerprint env a1) (length (heap w)) (Applications (agent w))\<rparr>\<rparr>"
    by simp_all
  show ?thesis
    unfolding r1 w1 by (simp add: Load_def update_Some_unfold keys_distinct_def distinct_update)
next
  case (Some q)
  from pointers_valid_Load [OF valid Some] have q: "q < length (heap w)" .
  from Generate_requested_hit [OF req1 Some q] gen1
  have r1: "r1 = Inr q"
    and w1: "w1 = w\<lparr>heap := (heap w @ [a1\<lparr>ID := fingerprint env a1\<rparr>])[q := add (heap w ! q)]\<rparr>"
    by simp_all
  show ?thesis
    unfolding r1 w1 using Some q by (simp add: keys_distinct_def)
qed


lemma Generate_second:
  assumes req2': "requested env (nodeName (agent w1)) c2 verb2 option2 obj2 = Inr a2"
   and hit: "Load (Applications (agent w1)) (fingerprint env a2) = Some p"
   and p: "p < length (heap w1)"
   and gen2: "Generate env w1 c2 verb2 option2 obj2 = (r2, w2)"
  shows "r2 = Inr p \<and> heap w2 ! p = add (heap w1 ! p)
     \<and> Applications (agent w2) = Applications (agent w1)"
proof -
  from Generate_requested_hit [OF req2' hit p] gen2
  have r2: "r2 = Inr p"
    and w2: "w2 = w1\<lparr>heap := (heap w1 @ [a2\<lparr>ID := fingerprint env a2\<rparr>])[p := add (heap w1 ! p)]\<rparr>"
    by simp_all
  have "heap w2 ! p = add (heap w1 ! p)"
    unfolding w2 using p by simp
  moreover have "Applications (agent w2) = Applications (agent w1)"
    unfolding w2 by simp
  ultimately show ?thesis
    using r2 by simp
qed


text \<open>
  C1. Two \<^verbatim>\<open>Generate\<close> calls build Applications \<open>a1\<close> and \<open>a2\<close> with the same
  fingerprint-forming fields, the second call running on the world the first one left.
  Then the second call returns the pointer the first one returned, which is the table's
  entry for the fingerprint; the instance behind it has its reference count incremented
  by one; the table is unchanged, so no second entry is created, and a table with one
  entry per key keeps one entry per key. The last conjunct says the same of any later
  world \<open>w3\<close> whose table still holds the fingerprint: the call returns the stored pointer
  \<open>q\<close>, adds one reference to that instance and leaves the table alone.
\<close>

theorem Generate_dedup:
  assumes valid: "pointers_valid w"
    and req1: "requested env (nodeName (agent w)) c1 verb1 option1 obj1 = Inr a1"
    and req2: "requested env (nodeName (agent w)) c2 verb2 option2 obj2 = Inr a2"
    and same: "fingerprint_fields a1 = fingerprint_fields a2"
    and gen1: "Generate env w c1 verb1 option1 obj1 = (r1, w1)"
    and gen2: "Generate env w1 c2 verb2 option2 obj2 = (r2, w2)"
  shows "r2 = r1
     \<and> (case r1 of
          Inl err \<Rightarrow> False
        | Inr p \<Rightarrow>
            Load (Applications (agent w1)) (fingerprint env a1) = Some p
            \<and> heap w2 ! p = add (heap w1 ! p)
            \<and> count (heap w2 ! p) = count (heap w1 ! p) + 1
            \<and> Applications (agent w2) = Applications (agent w1)
            \<and> (keys_distinct w \<longrightarrow> keys_distinct w2))
     \<and> (pointers_valid w3 \<and> nodeName (agent w3) = nodeName (agent w)
          \<and> Load (Applications (agent w3)) (fingerprint env a1) = Some q \<longrightarrow>
        fst (Generate env w3 c2 verb2 option2 obj2) = Inr q
        \<and> heap (snd (Generate env w3 c2 verb2 option2 obj2)) ! q = add (heap w3 ! q)
        \<and> Applications (agent (snd (Generate env w3 c2 verb2 option2 obj2)))
            = Applications (agent w3))"
proof -
  have k2: "fingerprint env a2 = fingerprint env a1"
    by (rule fingerprint_fields_eq [OF same [symmetric]])
  from Generate_first [OF valid req1 gen1]
  obtain p where r1: "r1 = Inr p" and p: "p < length (heap w1)"
    and n: "nodeName (agent w1) = nodeName (agent w)"
    and l: "Load (Applications (agent w1)) (fingerprint env a1) = Some p"
    and d: "keys_distinct w \<longrightarrow> keys_distinct w1"
    by blast
  from req2 n have req2': "requested env (nodeName (agent w1)) c2 verb2 option2 obj2 = Inr a2"
    by simp
  from l k2 have hit: "Load (Applications (agent w1)) (fingerprint env a2) = Some p"
    by simp
  from Generate_second [OF req2' hit p gen2]
  have r2: "r2 = Inr p" and h: "heap w2 ! p = add (heap w1 ! p)"
    and t: "Applications (agent w2) = Applications (agent w1)"
    by simp_all
  have c: "count (heap w2 ! p) = count (heap w1 ! p) + 1"
    unfolding h by (simp add: add_def)
  have d2: "keys_distinct w \<longrightarrow> keys_distinct w2"
    using d t unfolding keys_distinct_def by simp
  have later: "fst (Generate env w3 c2 verb2 option2 obj2) = Inr q
        \<and> heap (snd (Generate env w3 c2 verb2 option2 obj2)) ! q = add (heap w3 ! q)
        \<and> Applications (agent (snd (Generate env w3 c2 verb2 option2 obj2)))
            = Applications (agent w3)"
    if v3: "pointers_valid w3" and n3: "nodeName (agent w3) = nodeName (agent w)"
      and l3: "Load (Applications (agent w3)) (fingerprint env a1) = Some q"
  proof -
    from req2 n3 have req3: "requested env (nodeName (agent w3)) c2 verb2 option2 obj2 = Inr a2"
      by simp
    from l3 k2 have hit3: "Load (Applications (agent w3)) (fingerprint env a2) = Some q"
      by simp
    from Generate_second [OF req3 hit3 pointers_valid_Load [OF v3 l3] surjective_pairing]
    show ?thesis
      by simp
  qed
  have first: "r2 = r1
     \<and> (case r1 of
          Inl err \<Rightarrow> False
        | Inr p \<Rightarrow>
            Load (Applications (agent w1)) (fingerprint env a1) = Some p
            \<and> heap w2 ! p = add (heap w1 ! p)
            \<and> count (heap w2 ! p) = count (heap w1 ! p) + 1
            \<and> Applications (agent w2) = Applications (agent w1)
            \<and> (keys_distinct w \<longrightarrow> keys_distinct w2))"
    unfolding r1 r2 using l h c t d2 by simp
  from first later show ?thesis
    by blast
qed

lemma demo_requested:
  "requested demo_env ''edge1'' demo_ctx Get (IBytes ''{}'') INil = Inr demo_app"
  by (simp add: requested_def demo_env_def demo_ctx_def newApplication_def toBytes_def add_def
      demo_app_def WithCancel_def PreApplying_def)

theorem Generate_dedup_witness:
  "pointers_valid demo_world
   \<and> requested demo_env (nodeName (agent demo_world)) demo_ctx Get (IBytes ''{}'') INil
       = Inr demo_app
   \<and> fingerprint_fields demo_app = fingerprint_fields demo_app
   \<and> keys_distinct demo_world
   \<and> pointers_valid (snd (Generate demo_env demo_world demo_ctx Get (IBytes ''{}'') INil))
   \<and> fst (Generate demo_env demo_world demo_ctx Get (IBytes ''{}'') INil) = Inr 0
   \<and> fst (Generate demo_env (snd (Generate demo_env demo_world demo_ctx Get (IBytes ''{}'') INil))
             demo_ctx Get (IBytes ''{}'') INil) = Inr 0
   \<and> count (heap (snd (Generate demo_env
               (snd (Generate demo_env demo_world demo_ctx Get (IBytes ''{}'') INil))
               demo_ctx Get (IBytes ''{}'') INil)) ! 0)
       = count (heap (snd (Generate demo_env demo_world demo_ctx Get (IBytes ''{}'') INil)) ! 0)
         + 1
   \<and> Applications (agent (snd (Generate demo_env
               (snd (Generate demo_env demo_world demo_ctx Get (IBytes ''{}'') INil))
               demo_ctx Get (IBytes ''{}'') INil)))
       = Applications (agent (snd (Generate demo_env demo_world demo_ctx Get (IBytes ''{}'') INil)))"
proof -
  let ?w1 = "snd (Generate demo_env demo_world demo_ctx Get (IBytes ''{}'') INil)"
  have v: "pointers_valid demo_world"
    by (simp add: pointers_valid_def demo_world_def)
  have r: "requested demo_env (nodeName (agent demo_world)) demo_ctx Get (IBytes ''{}'') INil
      = Inr demo_app"
    by (simp add: demo_world_def demo_requested)
  have miss: "Load (Applications (agent demo_world)) (fingerprint demo_env demo_app) = None"
    by (simp add: demo_world_def Load_def)
  note gen = Generate_requested_miss [OF r miss]
  have g: "fst (Generate demo_env demo_world demo_ctx Get (IBytes ''{}'') INil) = Inr 0"
    using gen by (simp add: demo_world_def)
  have v1: "pointers_valid ?w1"
    using gen by (simp add: demo_world_def pointers_valid_def)
  have n1: "nodeName (agent ?w1) = nodeName (agent demo_world)"
    using gen by simp
  have l1: "Load (Applications (agent ?w1)) (fingerprint demo_env demo_app) = Some 0"
    using gen by (simp add: demo_world_def Load_def)
  have d: "keys_distinct demo_world"
    by (simp add: keys_distinct_def demo_world_def)
  show ?thesis
    using Generate_dedup [OF v r r refl surjective_pairing surjective_pairing, of ?w1 0]
      v r g d v1 n1 l1
    by (simp add: add_def)
qed

section \<open>Dispatch in Apply\<close>















section \<open>Garbage collection\<close>

lemma time_Since_ge: "time_Since now t \<ge> Minute * 5 \<longleftrightarrow> now - t \<ge> 5 * Minute"
  by (simp add: time_Since_def Let_def Minute_def maxDuration_def minDuration_def)

lemma GC_Range_map_of:
  "distinct (map fst es) \<Longrightarrow>
   map_of (GC_Range clock h es t) k =
     (case map_of es k of
        None \<Rightarrow> map_of t k
      | Some p \<Rightarrow> if expired clock h k p then None else map_of t k)"
proof (induction es arbitrary: t)
  case Nil
  then show ?case by simp
next
  case (Cons e es)
  obtain key v where e: "e = (key, v)"
    by (cases e)
  from Cons.prems e have d: "distinct (map fst es)" and n: "map_of es key = None"
    by (auto simp: map_of_eq_None_iff)
  note ih = Cons.IH [OF d, of t] Cons.IH [OF d, of "AList.delete key t"]
  show ?case
  proof (cases "k = key")
    case True
    with n ih show ?thesis
      by (simp add: e Let_def time_Since_ge expired_def delete_conv')
  next
    case False
    with ih show ?thesis
      by (simp add: e Let_def time_Since_ge expired_def delete_conv' split: option.splits)
  qed
qed

text \<open>
  C7. After \<^verbatim>\<open>GC\<close> a key is in the table iff it was there and its Application was not
  expired, where expired means that \<^verbatim>\<open>LastCloseTime\<close> is not the zero time and lies at
  least five minutes before the time at which the sweep visits the key. The heap is
  untouched. An Application with a non-zero reference count has the zero time as its
  \<^verbatim>\<open>LastCloseTime\<close> and is kept, whatever the clock says; one whose timestamp is less
  than five minutes old is kept.
\<close>

theorem GC_deletes_exactly:
  assumes "keys_distinct w"
  shows "Load (Applications (agent (GC clock w))) k =
       (case Load (Applications (agent w)) k of
          None \<Rightarrow> None
        | Some p \<Rightarrow>
            if LastCloseTime (heap w ! p) \<noteq> 0 \<and> clock k - LastCloseTime (heap w ! p) \<ge> 5 * Minute
            then None else Some p)
     \<and> heap (GC clock w) = heap w
     \<and> (Load (Applications (agent w)) k = Some p \<and> count (heap w ! p) \<noteq> 0 \<longrightarrow>
          LastCloseTime (heap w ! p) = 0 \<and> Load (Applications (agent (GC clock w))) k = Some p)
     \<and> (Load (Applications (agent w)) k = Some p \<and> clock k - timestamp (heap w ! p) < 5 * Minute \<longrightarrow>
          Load (Applications (agent (GC clock w))) k = Some p)"
proof -
  have main: "Load (Applications (agent (GC clock w))) k =
       (case Load (Applications (agent w)) k of
          None \<Rightarrow> None
        | Some p \<Rightarrow>
            if LastCloseTime (heap w ! p) \<noteq> 0 \<and> clock k - LastCloseTime (heap w ! p) \<ge> 5 * Minute
            then None else Some p)"
    using assms
    by (simp add: GC_def Load_def keys_distinct_def GC_Range_map_of expired_def
        split: option.splits)
  have pos: "count (heap w ! p) \<noteq> 0 \<Longrightarrow> LastCloseTime (heap w ! p) = 0"
    by (simp add: LastCloseTime_def)
  have recent: "clock k - timestamp (heap w ! p) < 5 * Minute \<Longrightarrow>
      \<not> (LastCloseTime (heap w ! p) \<noteq> 0 \<and> clock k - LastCloseTime (heap w ! p) \<ge> 5 * Minute)"
    by (simp add: LastCloseTime_def)
  have kept: "Load (Applications (agent w)) k = Some p \<Longrightarrow>
      \<not> (LastCloseTime (heap w ! p) \<noteq> 0 \<and> clock k - LastCloseTime (heap w ! p) \<ge> 5 * Minute) \<Longrightarrow>
      Load (Applications (agent (GC clock w))) k = Some p"
    unfolding main by simp
  have h: "heap (GC clock w) = heap w"
    by (simp add: GC_def)
  from pos kept have c3: "Load (Applications (agent w)) k = Some p \<and> count (heap w ! p) \<noteq> 0 \<longrightarrow>
          LastCloseTime (heap w ! p) = 0 \<and> Load (Applications (agent (GC clock w))) k = Some p"
    by simp
  from recent kept have c4: "Load (Applications (agent w)) k = Some p
        \<and> clock k - timestamp (heap w ! p) < 5 * Minute \<longrightarrow>
          Load (Applications (agent (GC clock w))) k = Some p"
    by blast
  from main h c3 c4 show ?thesis
    by blast
qed

theorem GC_deletes_exactly_witness:
  "keys_distinct demo_idle
   \<and> Load (Applications (agent (GC (\<lambda>k. 300000001000) demo_idle))) ''f1'' = Some 0
   \<and> Load (Applications (agent (GC (\<lambda>k. 300000001000) demo_idle))) ''f2'' = None
   \<and> Load (Applications (agent (GC (\<lambda>k. 300000001000) demo_idle))) ''f3'' = Some 2"
proof -
  have d: "keys_distinct demo_idle"
    by (simp add: keys_distinct_def demo_idle_def)
  show ?thesis
    using d GC_deletes_exactly [OF d, of "\<lambda>k. 300000001000" "''f1''" 0]
      GC_deletes_exactly [OF d, of "\<lambda>k. 300000001000" "''f2''" 1]
      GC_deletes_exactly [OF d, of "\<lambda>k. 300000001000" "''f3''" 2]
    by (simp add: demo_idle_def Load_def demo_app_def LastCloseTime_def Minute_def)
qed

section \<open>Watch applications in the Center\<close>

lemma authorize_effects:
  "listeners (snd (authorizeApplication env a gvr ns name)) = []
   \<and> backend_calls (snd (authorizeApplication env a gvr ns name)) = []"
  by (simp add: authorizeApplication_def listeners_def backend_calls_def Let_def
      split: sum.splits)

lemma ProcessApplication_watch:
  assumes "Verb app = Watch"
  shows "ProcessApplication env app =
     (let app1 = app\<lparr>Status := InProcessing\<rparr>;
          (gvr, ns, name) = ParseKey env (Key app)
      in case authorizeApplication env app1 gvr ns name of
           (Some err, fx) \<Rightarrow> (Err err, app1, fx)
         | (None, fx) \<Rightarrow>
             (case Unmarshal_ListOptions env (Option app) of
                Inl e \<Rightarrow>
                  (Err (Plain (''failed to prase Option bytes, '' @ Error_text e)), app1, fx)
              | Inr option \<Rightarrow>
                  (case AddListener env (ToListener env app1 option) of
                     Some e \<Rightarrow>
                       (Err (Plain (''failed to add listener, '' @ Error_text e)), app1,
                        fx @ [ListenerAdded (ToListener env app1 option)])
                   | None \<Rightarrow>
                       (Ok None, app1, fx @ [ListenerAdded (ToListener env app1 option)]))))"
  using assms
  by (simp add: ProcessApplication_def dispatch_def OptionTo_def Let_def split_beta verb_defs
      split: sum.splits option.splits prod.splits)


lemma listeners_append: "listeners (xs @ ys) = listeners xs @ listeners ys"
  by (simp add: listeners_def)

lemma backend_calls_append: "backend_calls (xs @ ys) = backend_calls xs @ backend_calls ys"
  by (simp add: backend_calls_def)

lemma effects_single:
  "listeners [ListenerAdded l] = [l]" "backend_calls [ListenerAdded l] = []"
  "listeners [] = []" "backend_calls [] = []"
  "listeners [AccessReview t ra] = []" "listeners (AccessReview t ra # fx) = listeners fx"
  by (simp_all add: listeners_def backend_calls_def)

text \<open>
  Against C2 as stated: with the RequireAuthorization feature gate disabled, a watch
  Application is registered as a listener and no access review is made.
\<close>

theorem watch_ungated_counterexample:
  "Verb demo_watch = Watch
   \<and> fst (ProcessApplication (demo_env\<lparr>RequireAuthorization := False\<rparr>) demo_watch) = Ok None
   \<and> reviews (snd (snd (ProcessApplication (demo_env\<lparr>RequireAuthorization := False\<rparr>) demo_watch)))
       = []
   \<and> length (listeners
        (snd (snd (ProcessApplication (demo_env\<lparr>RequireAuthorization := False\<rparr>) demo_watch))))
       = 1"
  by (simp add: ProcessApplication_watch demo_watch_def authorizeApplication_def demo_env_def
      reviews_def listeners_def Let_def)

text \<open>
  Against C8 as stated: the Option of this watch Application decodes as list options, the
  access review denies the caller, and no listener is registered.
\<close>

theorem watch_denied_counterexample:
  "Verb demo_watch = Watch
   \<and> Unmarshal_ListOptions demo_env (Option demo_watch)
       = Inr \<lparr>LabelSelector = ''app=web'', FieldSelector = ''status.phase=Running'',
              others = Object ''{}''\<rparr>
   \<and> listeners (snd (snd (ProcessApplication demo_env demo_watch))) = []"
  by (simp add: ProcessApplication_watch demo_watch_def authorizeApplication_def demo_env_def
      createAuthClient_def generateNewConfig_def numeral_3_eq_3 ToLower_def
      listeners_def demo_app_def Let_def)

text \<open>
  C8, as amended. \<^verbatim>\<open>ProcessApplication\<close> on a watch Application makes no backend call
  and at most one listener registration. When the Option decodes as list options and
  authorization passes (the gate is disabled, or the access review allows the caller),
  it makes exactly one registration: the listener for the Application's node and the
  key's resource whose selector is the one built from the requested label and field
  selector, its field selector joined with the term \<^verbatim>\<open>metadata.namespace\<close> equal to the
  key's namespace when that is not empty.
\<close>

theorem watch_registration:
  assumes watch: "Verb app = Watch"
    and key: "ParseKey env (Key app) = (gvr, ns, name)"
  shows "backend_calls (snd (snd (ProcessApplication env app))) = []
     \<and> length (listeners (snd (snd (ProcessApplication env app)))) \<le> 1
     \<and> (\<not> RequireAuthorization env \<longrightarrow>
          fst (authorizeApplication env (app\<lparr>Status := InProcessing\<rparr>) gvr ns name) = None)
     \<and> (Unmarshal_ListOptions env (Option app) = Inr option
        \<and> fst (authorizeApplication env (app\<lparr>Status := InProcessing\<rparr>) gvr ns name) = None \<longrightarrow>
        listeners (snd (snd (ProcessApplication env app)))
          = [NewSelectorListener env (Nodename app) gvr
               (let selector = NewSelector env (LabelSelector option) (FieldSelector option)
                in if ns \<noteq> []
                   then selector\<lparr>Field := AndSelectors (Field selector)
                          (OneTermEqualSelector ''metadata.namespace'' ns)\<rparr>
                   else selector)])"
proof -
  let ?app1 = "app\<lparr>Status := InProcessing\<rparr>"
  let ?auth = "authorizeApplication env ?app1 gvr ns name"
  note ae = authorize_effects [of env ?app1 gvr ns name]
  have 1: "backend_calls (snd (snd (ProcessApplication env app))) = []"
    using ae
    by (cases ?auth)
      (simp add: ProcessApplication_watch [OF watch] key Let_def backend_calls_append
        effects_single split: option.splits sum.splits)
  have 2: "length (listeners (snd (snd (ProcessApplication env app)))) \<le> 1"
    using ae
    by (cases ?auth)
      (simp add: ProcessApplication_watch [OF watch] key Let_def listeners_append
        effects_single split: option.splits sum.splits)
  have 3: "listeners (snd (snd (ProcessApplication env app)))
          = [NewSelectorListener env (Nodename app) gvr
               (let selector = NewSelector env (LabelSelector option) (FieldSelector option)
                in if ns \<noteq> []
                   then selector\<lparr>Field := AndSelectors (Field selector)
                          (OneTermEqualSelector ''metadata.namespace'' ns)\<rparr>
                   else selector)]"
    if "Unmarshal_ListOptions env (Option app) = Inr option" "fst ?auth = None"
    using ae that
    by (cases ?auth)
      (simp add: ProcessApplication_watch [OF watch] key Let_def listeners_append
        effects_single ToListener_def split: option.splits)
  have 4: "fst ?auth = None" if "\<not> RequireAuthorization env"
    using that by (simp add: authorizeApplication_def)
  from 1 2 3 4 show ?thesis
    by blast
qed

theorem watch_registration_witness:
  "Verb demo_watch = Watch
   \<and> ParseKey demo_env (Key demo_watch) = (demo_gvr, ''default'', ''web'')
   \<and> fst (authorizeApplication demo_env (demo_watch\<lparr>Token := ''Bearer abc'', Status := InProcessing\<rparr>)
        demo_gvr ''default'' ''web'') = None
   \<and> listeners (snd (snd (ProcessApplication demo_env (demo_watch\<lparr>Token := ''Bearer abc''\<rparr>))))
       = [\<lparr>l_nodeName = ''edge1'', l_gvr = demo_gvr,
           l_selector =
             \<lparr>Label = ParsedLabel ''app=web'',
              Field = AndSelectors (ParsedField ''status.phase=Running'')
                        (OneTermEqualSelector ''metadata.namespace'' ''default'')\<rparr>\<rparr>]
   \<and> backend_calls (snd (snd (ProcessApplication demo_env (demo_watch\<lparr>Token := ''Bearer abc''\<rparr>))))
       = []"
proof -
  have w: "Verb (demo_watch\<lparr>Token := ''Bearer abc''\<rparr>) = Watch"
    by (simp add: demo_watch_def)
  have k: "ParseKey demo_env (Key (demo_watch\<lparr>Token := ''Bearer abc''\<rparr>))
      = (demo_gvr, ''default'', ''web'')"
    by (simp add: demo_env_def)
  have a: "fst (authorizeApplication demo_env
        (demo_watch\<lparr>Token := ''Bearer abc'', Status := InProcessing\<rparr>)
        demo_gvr ''default'' ''web'') = None"
    by (simp add: authorizeApplication_def demo_env_def createAuthClient_def
        generateNewConfig_def numeral_3_eq_3 ToLower_def demo_watch_def demo_app_def)
  have u: "Unmarshal_ListOptions demo_env (Option (demo_watch\<lparr>Token := ''Bearer abc''\<rparr>))
      = Inr \<lparr>LabelSelector = ''app=web'', FieldSelector = ''status.phase=Running'',
             others = Object ''{}''\<rparr>"
    by (simp add: demo_env_def demo_watch_def demo_app_def)
  show ?thesis
    using watch_registration [OF w k,
        of "\<lparr>LabelSelector = ''app=web'', FieldSelector = ''status.phase=Running'',
             others = Object ''{}''\<rparr>"] w k a u
    by (simp add: demo_watch_def demo_app_def demo_env_def)
qed


lemma Response_frame:
  "Status (fst (Response env a pid st err rc)) = st
   \<and> listeners (snd (Response env a pid st err rc)) = []
   \<and> backend_calls (snd (Response env a pid st err rc)) = []"
  by (simp add: Response_def Let_def listeners_def backend_calls_def
      split: sum.splits option.splits error.splits)

lemma authorize_None_iff:
  assumes "RequireAuthorization env"
  shows "fst (authorizeApplication env a gvr ns name) = None \<longleftrightarrow>
     (case generateNewConfig (Token a) of
        Inl err \<Rightarrow> False
      | Inr tok \<Rightarrow>
          (case SelfSubjectAccessReview env tok
                  \<lparr>ra_Namespace = ns, ra_Verb = Verb a, ra_Group = Group gvr,
                   ra_Resource = Resource gvr, ra_Name = name,
                   ra_Subresource = Subresource a\<rparr> of
             Inl err \<Rightarrow> False
           | Inr response \<Rightarrow> Allowed response))"
  using assms
  by (simp add: authorizeApplication_def createAuthClient_def Let_def split: sum.splits)

lemma authorize_None_effects:
  assumes "RequireAuthorization env" "fst (authorizeApplication env a gvr ns name) = None"
  shows "\<exists>tok. generateNewConfig (Token a) = Inr tok
     \<and> snd (authorizeApplication env a gvr ns name)
        = [AccessReview tok
             \<lparr>ra_Namespace = ns, ra_Verb = Verb a, ra_Group = Group gvr,
              ra_Resource = Resource gvr, ra_Name = name, ra_Subresource = Subresource a\<rparr>]"
  using assms
  by (auto simp: authorizeApplication_def createAuthClient_def Let_def
      split: sum.splits if_splits)

lemma reviews_simps:
  "reviews [] = []" "reviews [ListenerAdded l] = []"
  "reviews (xs @ ys) = reviews xs @ reviews ys"
  by (simp_all add: reviews_def)

lemma Response_Rejected:
  "Response env a pid Rejected (Some err) None =
     (let rejected = (case err of
                        APIStatus s \<Rightarrow> a\<lparr>Status := Rejected, Error := s\<rparr>
                      | Plain t \<Rightarrow> a\<lparr>Status := Rejected, Reason := t\<rparr>)
      in (rejected,
          case BuildResource env (Nodename a) Ignore ApplicationResource Ignore of
            Inl e \<Rightarrow> []
          | Inr resource \<Rightarrow> [Responded pid resource rejected]))"
  by (cases err) (simp_all add: Response_def Let_def split: sum.splits)

text \<open>
  C2, as amended. With the RequireAuthorization feature gate enabled, a watch Application
  gets a listener registered only if the caller's token is well formed and an access
  review with that token, for verb watch on the key's resource, allowed it; that review is
  the first of the two effects, the registration the second. When authorization fails
  (a malformed token, a failed review or a denial), \<^verbatim>\<open>ProcessApplication\<close> returns that
  error, registers no listener and makes no backend call; \<^verbatim>\<open>Process\<close> then sets Status
  Rejected, with the error as the Reason or as the structured Error, and sends that
  Application back as the reply when the reply's resource can be built; when it cannot,
  no reply is sent. With the gate disabled, authorization succeeds without any effect and
  \<^verbatim>\<open>ProcessApplication\<close> makes no access review.
\<close>

theorem watch_authorization:
  assumes watch: "Verb app = Watch"
    and key: "ParseKey env (Key app) = (gvr, ns, name)"
  shows "(RequireAuthorization env \<longrightarrow>
       (listeners (snd (snd (ProcessApplication env app))) \<noteq> [] \<longrightarrow>
        (case generateNewConfig (Token app) of
           Inl e \<Rightarrow> False
         | Inr tok \<Rightarrow>
             (case SelfSubjectAccessReview env tok
                     \<lparr>ra_Namespace = ns, ra_Verb = Watch, ra_Group = Group gvr,
                      ra_Resource = Resource gvr, ra_Name = name,
                      ra_Subresource = Subresource app\<rparr> of
                Inl e \<Rightarrow> False
              | Inr response \<Rightarrow> Allowed response)
             \<and> take 1 (snd (snd (ProcessApplication env app)))
                 = [AccessReview tok
                      \<lparr>ra_Namespace = ns, ra_Verb = Watch, ra_Group = Group gvr,
                       ra_Resource = Resource gvr, ra_Name = name,
                       ra_Subresource = Subresource app\<rparr>]
             \<and> length (snd (snd (ProcessApplication env app))) = 2))
       \<and> (fst (authorizeApplication env (app\<lparr>Status := InProcessing\<rparr>) gvr ns name) = Some err \<longrightarrow>
          fst (ProcessApplication env app) = Err err
          \<and> listeners (snd (snd (ProcessApplication env app))) = []
          \<and> backend_calls (snd (snd (ProcessApplication env app))) = []
          \<and> (msgToApplication env msg = Inr app \<longrightarrow>
               Process env msg =
                 (let rejected = (case err of
                                    APIStatus s \<Rightarrow> app\<lparr>Status := Rejected, Error := s\<rparr>
                                  | Plain t \<Rightarrow> app\<lparr>Status := Rejected, Reason := t\<rparr>)
                  in (Finished rejected,
                      snd (authorizeApplication env (app\<lparr>Status := InProcessing\<rparr>) gvr ns name)
                      @ (case BuildResource env (Nodename app) Ignore ApplicationResource Ignore of
                           Inl e \<Rightarrow> []
                         | Inr resource \<Rightarrow> [Responded (GetID msg) resource rejected])))
               \<and> listeners (snd (Process env msg)) = []
               \<and> backend_calls (snd (Process env msg)) = [])))
     \<and> (\<not> RequireAuthorization env \<longrightarrow>
          authorizeApplication env (app\<lparr>Status := InProcessing\<rparr>) gvr ns name = (None, [])
          \<and> reviews (snd (snd (ProcessApplication env app))) = [])"
proof -
  let ?app1 = "app\<lparr>Status := InProcessing\<rparr>"
  let ?auth = "authorizeApplication env ?app1 gvr ns name"
  note ae = authorize_effects [of env ?app1 gvr ns name]
  note pw = ProcessApplication_watch [OF watch, of env]
  have denied: "ProcessApplication env app = (Err e, ?app1, snd ?auth)"
    if "fst ?auth = Some e" for e
    using that by (cases ?auth) (simp add: pw key Let_def)
  have 2: "fst (ProcessApplication env app) = Err err
        \<and> listeners (snd (snd (ProcessApplication env app))) = []
        \<and> backend_calls (snd (snd (ProcessApplication env app))) = []
        \<and> (msgToApplication env msg = Inr app \<longrightarrow>
               Process env msg =
                 (let rejected = (case err of
                                    APIStatus s \<Rightarrow> app\<lparr>Status := Rejected, Error := s\<rparr>
                                  | Plain t \<Rightarrow> app\<lparr>Status := Rejected, Reason := t\<rparr>)
                  in (Finished rejected,
                      snd ?auth
                      @ (case BuildResource env (Nodename app) Ignore ApplicationResource Ignore of
                           Inl e \<Rightarrow> []
                         | Inr resource \<Rightarrow> [Responded (GetID msg) resource rejected])))
               \<and> listeners (snd (Process env msg)) = []
               \<and> backend_calls (snd (Process env msg)) = [])"
    if d: "fst ?auth = Some err"
  proof -
    have p: "Process env msg =
                 (let rejected = (case err of
                                    APIStatus s \<Rightarrow> app\<lparr>Status := Rejected, Error := s\<rparr>
                                  | Plain t \<Rightarrow> app\<lparr>Status := Rejected, Reason := t\<rparr>)
                  in (Finished rejected,
                      snd ?auth
                      @ (case BuildResource env (Nodename app) Ignore ApplicationResource Ignore of
                           Inl e \<Rightarrow> []
                         | Inr resource \<Rightarrow> [Responded (GetID msg) resource rejected])))"
      if m: "msgToApplication env msg = Inr app"
      by (cases err)
        (simp_all add: Process_def m denied [OF d] Response_Rejected Let_def split_beta
          split: sum.splits)
    have q: "listeners (snd (Process env msg)) = [] \<and> backend_calls (snd (Process env msg)) = []"
      if m: "msgToApplication env msg = Inr app"
      using ae Response_frame [of env ?app1 "GetID msg" Rejected "Some err" None]
      by (simp add: Process_def m denied [OF d] split_beta listeners_append backend_calls_append)
    from p q ae show ?thesis
      by (simp add: denied [OF d])
  qed
  have 1: "(case generateNewConfig (Token app) of
           Inl e \<Rightarrow> False
         | Inr tok \<Rightarrow>
             (case SelfSubjectAccessReview env tok
                     \<lparr>ra_Namespace = ns, ra_Verb = Watch, ra_Group = Group gvr,
                      ra_Resource = Resource gvr, ra_Name = name,
                      ra_Subresource = Subresource app\<rparr> of
                Inl e \<Rightarrow> False
              | Inr response \<Rightarrow> Allowed response)
             \<and> take 1 (snd (snd (ProcessApplication env app)))
                 = [AccessReview tok
                      \<lparr>ra_Namespace = ns, ra_Verb = Watch, ra_Group = Group gvr,
                       ra_Resource = Resource gvr, ra_Name = name,
                       ra_Subresource = Subresource app\<rparr>]
             \<and> length (snd (snd (ProcessApplication env app))) = 2)"
    if gate: "RequireAuthorization env"
      and l: "listeners (snd (snd (ProcessApplication env app))) \<noteq> []"
  proof (cases "fst ?auth")
    case (Some e)
    from denied [OF Some] ae l show ?thesis
      by simp
  next
    case None
    from authorize_None_effects [OF gate None] obtain tok
      where tok: "generateNewConfig (Token app) = Inr tok"
        and fx: "snd ?auth = [AccessReview tok
             \<lparr>ra_Namespace = ns, ra_Verb = Watch, ra_Group = Group gvr,
              ra_Resource = Resource gvr, ra_Name = name, ra_Subresource = Subresource app\<rparr>]"
      using watch by auto
    from authorize_None_iff [OF gate, of ?app1 gvr ns name] None tok watch
    have ok: "(case SelfSubjectAccessReview env tok
                     \<lparr>ra_Namespace = ns, ra_Verb = Watch, ra_Group = Group gvr,
                      ra_Resource = Resource gvr, ra_Name = name,
                      ra_Subresource = Subresource app\<rparr> of
                Inl e \<Rightarrow> False
              | Inr response \<Rightarrow> Allowed response)"
      by simp
    have "take 1 (snd (snd (ProcessApplication env app))) = snd ?auth
        \<and> length (snd (snd (ProcessApplication env app))) = 2"
      using None fx l
      by (cases ?auth)
        (simp add: pw key Let_def effects_single split: sum.splits option.splits)
    with tok ok fx show ?thesis
      by simp
  qed
  have 3: "?auth = (None, []) \<and> reviews (snd (snd (ProcessApplication env app))) = []"
    if off: "\<not> RequireAuthorization env"
  proof -
    from off have a: "?auth = (None, [])"
      by (simp add: authorizeApplication_def)
    then show ?thesis
      by (simp add: pw key Let_def reviews_simps split: sum.splits option.splits)
  qed
  from 1 2 3 show ?thesis
    by blast
qed

theorem watch_authorization_witness:
  "RequireAuthorization demo_env \<and> Verb demo_watch = Watch
   \<and> ParseKey demo_env (Key demo_watch) = (demo_gvr, ''default'', ''web'')
   \<and> fst (authorizeApplication demo_env (demo_watch\<lparr>Status := InProcessing\<rparr>)
          demo_gvr ''default'' ''web'')
       = Some (Plain ''resource apps/v1, Resource=deployments authorize failed.reason: no RBAC rule.'')
   \<and> msgToApplication demo_env (Message ''m1'' (Object ''watch'')) = Inr demo_watch
   \<and> Process demo_env (Message ''m1'' (Object ''watch''))
       = (Finished (demo_watch\<lparr>Status := Rejected,
             Reason := ''resource apps/v1, Resource=deployments authorize failed.reason: no RBAC rule.''\<rparr>),
          [AccessReview ''stolen''
             \<lparr>ra_Namespace = ''default'', ra_Verb = Watch, ra_Group = ''apps'',
              ra_Resource = ''deployments'', ra_Name = ''web'', ra_Subresource = []\<rparr>,
           Responded ''m1'' ''node/edge1/ignore/Application/ignore''
             (demo_watch\<lparr>Status := Rejected,
                Reason := ''resource apps/v1, Resource=deployments authorize failed.reason: no RBAC rule.''\<rparr>)])
   \<and> listeners (snd (snd (ProcessApplication demo_env (demo_watch\<lparr>Token := ''Bearer abc''\<rparr>))))
       \<noteq> []
   \<and> take 1 (snd (snd (ProcessApplication demo_env (demo_watch\<lparr>Token := ''Bearer abc''\<rparr>))))
       = [AccessReview ''abc''
            \<lparr>ra_Namespace = ''default'', ra_Verb = Watch, ra_Group = ''apps'',
             ra_Resource = ''deployments'', ra_Name = ''web'', ra_Subresource = []\<rparr>]
   \<and> \<not> RequireAuthorization (demo_env\<lparr>RequireAuthorization := False\<rparr>)
   \<and> reviews (snd (snd (ProcessApplication (demo_env\<lparr>RequireAuthorization := False\<rparr>)
        demo_watch))) = []"
proof -
  have g: "RequireAuthorization demo_env"
    by (simp add: demo_env_def)
  have w: "Verb demo_watch = Watch"
    by (simp add: demo_watch_def)
  have k: "ParseKey demo_env (Key demo_watch) = (demo_gvr, ''default'', ''web'')"
    by (simp add: demo_env_def)
  have k0: "ParseKey (demo_env\<lparr>RequireAuthorization := False\<rparr>) (Key demo_watch)
      = (demo_gvr, ''default'', ''web'')"
    by (simp add: demo_env_def)
  have a: "authorizeApplication demo_env (demo_watch\<lparr>Status := InProcessing\<rparr>)
          demo_gvr ''default'' ''web''
       = (Some (Plain ''resource apps/v1, Resource=deployments authorize failed.reason: no RBAC rule.''),
          [AccessReview ''stolen''
             \<lparr>ra_Namespace = ''default'', ra_Verb = Watch, ra_Group = ''apps'',
              ra_Resource = ''deployments'', ra_Name = ''web'', ra_Subresource = []\<rparr>])"
    by (simp add: authorizeApplication_def demo_env_def createAuthClient_def
        generateNewConfig_def numeral_3_eq_3 ToLower_def demo_watch_def demo_app_def Let_def
        GVR_String_def demo_gvr_def)
  have m: "msgToApplication demo_env (Message ''m1'' (Object ''watch'')) = Inr demo_watch"
    by (simp add: msgToApplication_def demo_env_def)
  have b: "BuildResource demo_env (Nodename demo_watch) Ignore ApplicationResource Ignore
      = Inr ''node/edge1/ignore/Application/ignore''"
    by (simp add: demo_env_def demo_watch_def demo_app_def Ignore_def ApplicationResource_def)
  have w2: "Verb (demo_watch\<lparr>Token := ''Bearer abc''\<rparr>) = Watch"
    by (simp add: demo_watch_def)
  have k2: "ParseKey demo_env (Key (demo_watch\<lparr>Token := ''Bearer abc''\<rparr>))
      = (demo_gvr, ''default'', ''web'')"
    by (simp add: demo_env_def)
  have l2: "listeners (snd (snd (ProcessApplication demo_env
      (demo_watch\<lparr>Token := ''Bearer abc''\<rparr>)))) \<noteq> []"
    by (simp add: ProcessApplication_watch demo_watch_def authorizeApplication_def demo_env_def
        createAuthClient_def generateNewConfig_def numeral_3_eq_3 ToLower_def
        listeners_def demo_app_def Let_def)
  have t2: "generateNewConfig (Token (demo_watch\<lparr>Token := ''Bearer abc''\<rparr>)) = Inr ''abc''"
    by (simp add: generateNewConfig_def numeral_3_eq_3 ToLower_def)
  have off: "\<not> RequireAuthorization (demo_env\<lparr>RequireAuthorization := False\<rparr>)"
    by simp
  have sub: "Subresource demo_watch = []"
    by (simp add: demo_watch_def demo_app_def)
  from watch_authorization [OF w k, where msg = "Message ''m1'' (Object ''watch'')"
      and err = "Plain ''resource apps/v1, Resource=deployments authorize failed.reason: no RBAC rule.''"]
    g a m b
  have p: "Process demo_env (Message ''m1'' (Object ''watch''))
       = (Finished (demo_watch\<lparr>Status := Rejected,
             Reason := ''resource apps/v1, Resource=deployments authorize failed.reason: no RBAC rule.''\<rparr>),
          [AccessReview ''stolen''
             \<lparr>ra_Namespace = ''default'', ra_Verb = Watch, ra_Group = ''apps'',
              ra_Resource = ''deployments'', ra_Name = ''web'', ra_Subresource = []\<rparr>,
           Responded ''m1'' ''node/edge1/ignore/Application/ignore''
             (demo_watch\<lparr>Status := Rejected,
                Reason := ''resource apps/v1, Resource=deployments authorize failed.reason: no RBAC rule.''\<rparr>)])"
    by (simp add: Let_def)
  from watch_authorization [OF w2 k2, where err = "Plain []"] g l2 t2
  have q: "take 1 (snd (snd (ProcessApplication demo_env (demo_watch\<lparr>Token := ''Bearer abc''\<rparr>))))
       = [AccessReview ''abc''
            \<lparr>ra_Namespace = ''default'', ra_Verb = Watch, ra_Group = ''apps'',
             ra_Resource = ''deployments'', ra_Name = ''web'', ra_Subresource = []\<rparr>]"
    by (simp add: demo_gvr_def sub)
  from watch_authorization [OF w k0, where err = "Plain []"] off
  have r: "reviews (snd (snd (ProcessApplication (demo_env\<lparr>RequireAuthorization := False\<rparr>)
        demo_watch))) = []"
    by simp
  from g w k a m p l2 q off r show ?thesis
    by simp
qed

end
